theory Spec2Isabelle
  imports Complex_Main "HOL-Library.Word" "HOL-Library.Sublist"
begin

section \<open>JavaScript values read by \<open>src/src/App.js\<close>\<close>

text \<open>
  A JavaScript string is a sequence of UTF-16 code units; \<open>length\<close>, \<open>substring\<close>,
  \<open>trim\<close> and \<open>===\<close> all work on code units. String literals of the source are written
  \<open>js ''...''\<close> (every literal of \<open>App.js\<close> that the model needs is ASCII).
\<close>

type_synonym code_unit = "16 word"
type_synonym jsstring = "code_unit list"

definition js :: "string \<Rightarrow> jsstring" where
  "js s = map of_char s"

text \<open>
  \<open>String.prototype.trim\<close> removes WhiteSpace and LineTerminator code points from both
  ends: TAB, LF, VT, FF, CR, SP, NBSP, the Unicode space separators (category Zs), LS, PS and
  the byte order mark. All of them are single code units.
\<close>

definition is_ws :: "code_unit \<Rightarrow> bool" where
  "is_ws c = (c \<in> set [0x9, 0xA, 0xB, 0xC, 0xD, 0x20, 0xA0, 0x1680,
      0x2000, 0x2001, 0x2002, 0x2003, 0x2004, 0x2005, 0x2006, 0x2007, 0x2008, 0x2009, 0x200A,
      0x2028, 0x2029, 0x202F, 0x205F, 0x3000, 0xFEFF])"

definition trim :: "jsstring \<Rightarrow> jsstring" where
  "trim s = rev (dropWhile is_ws (rev (dropWhile is_ws s)))"

text \<open>
  A field that holds a string when present is a \<open>jsstring option\<close>: \<open>None\<close> stands for
  \<open>undefined\<close> (field missing) and for \<open>null\<close>, which \<open>?.\<close>, \<open>||\<close> and \<open>&&\<close> treat alike.
\<close>

subsection \<open>Numbers: IEEE 754 binary64\<close>

text \<open>
  A JavaScript number is a double: a finite value, which is a rational number, an infinity
  with its sign (\<open>True\<close> for the negative one), or NaN. The sign of zero is not modelled:
  \<open>-0\<close> is falsy like \<open>0\<close>, \<open>toFixed\<close> prints both as \<open>0\<close>, and nothing here divides.
\<close>

datatype double = Finite rat | Infinity bool | NaN

text \<open>The binary exponent of a positive rational: \<open>2^e \<le> x < 2^(e+1)\<close>.\<close>

function binade :: "rat \<Rightarrow> int" where
  "binade x =
     (if x \<le> 0 then 0
      else if 2 \<le> x then binade (x / 2) + 1
      else if x < 1 then binade (x * 2) - 1
      else 0)"
  by pat_completeness auto
termination
proof (relation "measure (\<lambda>x. if 1 \<le> x then nat \<lfloor>x\<rfloor> else nat \<lceil>1 / x\<rceil>)")
  show "wf (measure (\<lambda>x::rat. if 1 \<le> x then nat \<lfloor>x\<rfloor> else nat \<lceil>1 / x\<rceil>))" by simp
next
  fix x :: rat
  assume "\<not> x \<le> 0" "2 \<le> x"
  then have "x / 2 < of_int \<lfloor>x\<rfloor>" by linarith
  then have "\<lfloor>x / 2\<rfloor> < \<lfloor>x\<rfloor>" by (simp add: floor_less_iff)
  moreover have "0 < \<lfloor>x\<rfloor>" using \<open>2 \<le> x\<close> by linarith
  ultimately show "(x / 2, x) \<in> measure (\<lambda>x. if 1 \<le> x then nat \<lfloor>x\<rfloor> else nat \<lceil>1 / x\<rceil>)"
    using \<open>2 \<le> x\<close> by auto
next
  fix x :: rat
  assume a: "\<not> x \<le> 0" "\<not> 2 \<le> x" "x < 1"
  then have x: "0 < x" by simp
  then have y: "1 < 1 / x" using a by simp
  then have c: "2 \<le> \<lceil>1 / x\<rceil>" by linarith
  show "(x * 2, x) \<in> measure (\<lambda>x. if 1 \<le> x then nat \<lfloor>x\<rfloor> else nat \<lceil>1 / x\<rceil>)"
  proof (cases "1 \<le> x * 2")
    case True
    have "x * 2 < 2" using a by simp
    then have "\<lfloor>x * 2\<rfloor> < 2" by (simp add: floor_less_iff)
    with c have "\<lfloor>x * 2\<rfloor> < \<lceil>1 / x\<rceil>" by linarith
    moreover have "0 < \<lceil>1 / x\<rceil>" using c by linarith
    ultimately show ?thesis using True a by auto
  next
    case False
    then have "2 < 1 / x" using x by (simp add: field_simps)
    then have "1 / (x * 2) + 1 \<le> 1 / x" by (simp add: field_simps)
    moreover have "of_int \<lceil>1 / (x * 2)\<rceil> < 1 / (x * 2) + 1" by linarith
    ultimately have "of_int \<lceil>1 / (x * 2)\<rceil> < 1 / x" by linarith
    then have "\<lceil>1 / (x * 2)\<rceil> < \<lceil>1 / x\<rceil>" by (simp add: less_ceiling_iff)
    moreover have "0 < \<lceil>1 / x\<rceil>" using c by linarith
    ultimately show ?thesis using False a by auto
  qed
qed

declare binade.simps [simp del]

text \<open>Rounding to the nearest integer, a tie going to the even one.\<close>

definition round_even :: "rat \<Rightarrow> int" where
  "round_even x =
     (let n = \<lfloor>x\<rfloor>; r = x - of_int n
      in if r < 1 / 2 then n else if 1 / 2 < r then n + 1 else if even n then n else n + 1)"

text \<open>
  Rounding a rational to the nearest double, ties to even (the rounding of every arithmetic
  operation, and of \<open>JSON.parse\<close> on a decimal literal): the unit in the last place is
  \<open>2^(e - 52)\<close>, not below \<open>2^(-1074)\<close> (subnormal numbers); a result of magnitude
  \<open>2^1024\<close> or more is an infinity.
\<close>

definition round_double :: "rat \<Rightarrow> double" where
  "round_double x =
     (let a = \<bar>x\<bar>;
          s = max (binade a - 52) (- 1074);
          m = round_even (a / 2 powi s);
          y = of_int m * 2 powi s
      in if 2 ^ 1024 \<le> y then Infinity (x < 0) else Finite (if x < 0 then - y else y))"

text \<open>The operators \<open>-\<close>, \<open>*\<close> and \<open><=\<close> on numbers.\<close>

fun fl_sub :: "double \<Rightarrow> double \<Rightarrow> double" where
  "fl_sub (Finite a) (Finite b) = round_double (a - b)"
| "fl_sub (Finite a) (Infinity n) = Infinity (\<not> n)"
| "fl_sub (Infinity n) (Finite b) = Infinity n"
| "fl_sub (Infinity n) (Infinity m) = (if n = m then NaN else Infinity n)"
| "fl_sub NaN b = NaN"
| "fl_sub a NaN = NaN"

fun fl_mul :: "double \<Rightarrow> double \<Rightarrow> double" where
  "fl_mul (Finite a) (Finite b) = round_double (a * b)"
| "fl_mul (Finite a) (Infinity n) = (if a = 0 then NaN else Infinity (n \<noteq> (a < 0)))"
| "fl_mul (Infinity n) (Finite b) = (if b = 0 then NaN else Infinity (n \<noteq> (b < 0)))"
| "fl_mul (Infinity n) (Infinity m) = Infinity (n \<noteq> m)"
| "fl_mul NaN b = NaN"
| "fl_mul a NaN = NaN"

fun fl_le :: "double \<Rightarrow> double \<Rightarrow> bool" where
  "fl_le (Finite a) (Finite b) = (a \<le> b)"
| "fl_le (Finite a) (Infinity n) = (\<not> n)"
| "fl_le (Infinity n) (Finite b) = n"
| "fl_le (Infinity n) (Infinity m) = (n \<or> \<not> m)"
| "fl_le NaN b = False"
| "fl_le a NaN = False"

text \<open>
  A number field of a parsed response: missing, \<open>null\<close>, or a number. \<open>JSON.parse\<close> gives
  the double nearest to the literal, \<open>round_double q\<close> for the literal \<open>q\<close>.
\<close>

datatype jsnum = Undefined | Null | Num double

text \<open>
  \<open>x || 0\<close> on a number field: \<open>undefined\<close>, \<open>null\<close>, \<open>0\<close> and NaN are falsy.
\<close>

fun or_zero :: "jsnum \<Rightarrow> double" where
  "or_zero Undefined = Finite 0"
| "or_zero Null = Finite 0"
| "or_zero (Num d) = (if d = Finite 0 \<or> d = NaN then Finite 0 else d)"

text \<open>
  \<open>Number.prototype.toFixed(0)\<close>: for a number that is not finite, its name; otherwise a
  sign \<open>-\<close> when the number is negative, then, below \<open>10^21\<close>, the digits of the integer
  nearest to its magnitude (the larger one on a tie, the comparison being exact); from
  \<open>10^21\<close> on, the exponent notation of \<open>Number::toString\<close>, whose digits the model does
  not spell out.
\<close>

datatype fixed_text = Digits bool nat | Exponential bool | Infinity_text bool | NaN_text

fun toFixed0 :: "double \<Rightarrow> fixed_text" where
  "toFixed0 NaN = NaN_text"
| "toFixed0 (Infinity n) = Infinity_text n"
| "toFixed0 (Finite x) =
     (let s = (x < 0); y = (if x < 0 then - x else x)
      in if 10 ^ 21 \<le> y then Exponential s else Digits s (nat \<lfloor>y + 1 / 2\<rfloor>))"

section \<open>Messages and their sources\<close>

text \<open>An entry of \<open>data.sources\<close>, with the fields the component reads.\<close>

record source =
  title :: "jsstring option"
  url :: "jsstring option"
  filename :: "jsstring option"
  distance :: jsnum

datatype sender = User | Bot

text \<open>
  A chat message. \<open>sources\<close> is \<open>None\<close> on the messages built without that field (the
  user's and the error message). Times are milliseconds since the epoch.
\<close>

record message =
  id_msg :: int
  text_msg :: jsstring
  sender :: sender
  timestamp :: int
  sources :: "source list option"

subsection \<open>Rendering the sources of a message (lines 154 to 185)\<close>

text \<open>Line 159, in double arithmetic: each of the two operations rounds.\<close>

definition similarity :: "source \<Rightarrow> double" where
  "similarity source = fl_mul (fl_sub (Finite 1) (or_zero (distance source))) (Finite 100)"

text \<open>
  Line 160. \<open>+\<close> binds tighter than \<open>||\<close>: a missing title makes the left operand
  \<open>undefined + ''\<close>, the string \<open>undefined\<close>, so \<open>'Unknown'\<close> is shown for the empty title only.
\<close>

definition title' :: "source \<Rightarrow> jsstring" where
  "title' source =
     (let s = (case title source of
                 None \<Rightarrow> js ''undefined''
               | Some t \<Rightarrow> take 40 t @ (if 40 < length t then js ''...'' else js ''''))
      in if s = [] then js ''Unknown'' else s)"

text \<open>Line 161.\<close>

definition hasUrl :: "source \<Rightarrow> bool" where
  "hasUrl source =
     (case url source of
        None \<Rightarrow> False
      | Some u \<Rightarrow> u \<noteq> [] \<and> u \<noteq> js ''Unknown'' \<and> u \<noteq> js '''')"

text \<open>
  The element of lines 165 to 179: an anchor with its \<open>href\<close>, its \<open>title\<close> attribute and
  its text, or a span with its \<open>title\<close> attribute and its text.
\<close>

datatype element = Anchor jsstring jsstring jsstring | Span jsstring jsstring

fun is_link :: "element \<Rightarrow> bool" where
  "is_link (Anchor h t l) = True"
| "is_link (Span t l) = False"

fun label :: "element \<Rightarrow> jsstring" where
  "label (Anchor h t l) = l"
| "label (Span t l) = l"

definition or_else :: "jsstring option \<Rightarrow> jsstring \<Rightarrow> jsstring" where
  "or_else v d = (case v of None \<Rightarrow> d | Some s \<Rightarrow> if s = [] then d else s)"

record rendered_source =
  element :: element
  percent :: fixed_text

definition render_source :: "source \<Rightarrow> rendered_source" where
  "render_source source =
     \<lparr> element =
         (let span = Span (or_else (filename source) (js ''No URL available'')) (title' source)
          in case url source of
               None \<Rightarrow> span
             | Some u \<Rightarrow>
                 if hasUrl source
                 then Anchor u (js ''Open: '' @ or_else (title source) (js ''Unknown''))
                        (title' source)
                 else span),
       percent = toFixed0 (similarity source) \<rparr>"

text \<open>Lines 154 and 158: the guard and \<open>message.sources.slice(0, 3)\<close>.\<close>

definition sources_shown :: "message \<Rightarrow> source list" where
  "sources_shown message =
     (case sources message of
        None \<Rightarrow> []
      | Some ss \<Rightarrow> if sender message = Bot \<and> 0 < length ss then take 3 ss else [])"


text \<open>
  The order the claims speak of: ascending distance, the distance of a source being what
  line 159 reads (\<open>source.distance || 0\<close>), compared with \<open><=\<close>.
\<close>

definition ascending :: "source list \<Rightarrow> bool" where
  "ascending ss = sorted_wrt (\<lambda>a b. fl_le (or_zero (distance a)) (or_zero (distance b))) ss"



section \<open>The component's state and \<open>handleSendMessage\<close> (lines 4 to 78)\<close>

record state =
  messages :: "message list"
  inputValue :: jsstring
  isLoading :: bool

text \<open>Lines 4 to 13; \<open>date\<close> is the time of the first render.\<close>

definition initial_state :: "int \<Rightarrow> state" where
  "initial_state date =
     \<lparr> messages =
         [\<lparr> id_msg = 1,
            text_msg = js ''Hello! I'm Inceptia AI, your Startup India assistant. I can help you with information about startup registration, funding opportunities, tax benefits, and government policies. How can I assist you today?'',
            sender = Bot, timestamp = date, sources = None \<rparr>],
       inputValue = js '''',
       isLoading = False \<rparr>"

text \<open>
  The argument of \<open>fetch\<close> (lines 43 to 49). \<open>body\<close> lists the fields of the object given
  to \<open>JSON.stringify\<close>, in order.
\<close>

datatype json = JString jsstring | JNumber int

record request =
  endpoint :: string
  http_method :: string
  headers :: "(string \<times> string) list"
  body :: "(string \<times> json) list"

definition chat_request :: "jsstring \<Rightarrow> request" where
  "chat_request input =
     \<lparr> endpoint = ''https://inceptiaai-production.up.railway.app/chat'',
       http_method = ''POST'',
       headers = [(''Content-Type'', ''application/json'')],
       body = [(''message'', JString input), (''max_results'', JNumber 5)] \<rparr>"

text \<open>
  What \<open>fetch\<close> settles to. \<open>Rejected\<close>: the promise rejects (network error).
  \<open>Response ok b\<close>: a response with its \<open>ok\<close> flag and what \<open>response.json()\<close> gives:
  \<open>Invalid\<close> when it rejects, \<open>Null_body\<close> when the body is the JSON \<open>null\<close> (reading
  \<open>data.response\<close> then throws a TypeError), \<open>Data d\<close> for an object with the fields
  read: \<open>response\<close>, a string as the README's API reference has it, and \<open>sources\<close>, an
  array, or \<open>None\<close> when it is missing or \<open>null\<close>.
\<close>

record chat_data =
  response :: jsstring
  data_sources :: "source list option"

datatype json_body = Invalid | Null_body | Data chat_data

datatype fetch_result = Rejected | Response bool json_body

text \<open>
  Lines 30 to 35, 54 to 60 and 68 to 73. \<open>now\<close> and \<open>date\<close> are the values of
  \<open>Date.now()\<close> and \<open>new Date()\<close> the block reads.
\<close>

definition userMessage :: "int \<Rightarrow> int \<Rightarrow> jsstring \<Rightarrow> message" where
  "userMessage now date input =
     \<lparr> id_msg = now, text_msg = input, sender = User, timestamp = date, sources = None \<rparr>"

definition botMessage :: "int \<Rightarrow> int \<Rightarrow> chat_data \<Rightarrow> message" where
  "botMessage now date data =
     \<lparr> id_msg = now + 1, text_msg = response data, sender = Bot, timestamp = date,
       sources = Some (case data_sources data of None \<Rightarrow> [] | Some ss \<Rightarrow> ss) \<rparr>"

definition errorMessage :: "int \<Rightarrow> int \<Rightarrow> message" where
  "errorMessage now date =
     \<lparr> id_msg = now + 1,
       text_msg = js ''I'm sorry, I'm having trouble connecting to my knowledge base. Please make sure the backend server is running and try again.'',
       sender = Bot, timestamp = date, sources = None \<rparr>"

text \<open>
  Line 28, and the \<open>disabled\<close> attribute of the button (line 242): the empty string is
  falsy.
\<close>

definition send_disabled :: "state \<Rightarrow> bool" where
  "send_disabled st = (trim (inputValue st) = [] \<or> isLoading st)"

text \<open>
  Lines 28 to 49, up to the \<open>await\<close>: the guard, the three state updates and the request
  issued (\<open>None\<close> when the guard returns early).
\<close>

definition begin_send :: "int \<Rightarrow> int \<Rightarrow> state \<Rightarrow> state \<times> request option" where
  "begin_send now date st =
     (if send_disabled st then (st, None)
      else (st\<lparr> messages := messages st @ [userMessage now date (inputValue st)],
                inputValue := js '''',
                isLoading := True \<rparr>,
            Some (chat_request (inputValue st))))"

text \<open>
  The \<open>try\<close> block (lines 51 to 65) once \<open>fetch\<close> has settled: the message it appends, or
  \<open>None\<close> when it throws.
\<close>

definition try_block :: "int \<Rightarrow> int \<Rightarrow> fetch_result \<Rightarrow> message option" where
  "try_block now date r =
     (case r of
        Rejected \<Rightarrow> None
      | Response ok b \<Rightarrow>
          if ok then (case b of Invalid \<Rightarrow> None | Null_body \<Rightarrow> None
                      | Data data \<Rightarrow> Some (botMessage now date data))
          else None)"

text \<open>
  Lines 51 to 77 as a state update: \<open>try\<close>, \<open>catch\<close>, \<open>finally\<close>. Both
  \<open>setMessages\<close> calls are functional updates, so they act on the state at that moment.
\<close>

definition settle :: "int \<Rightarrow> int \<Rightarrow> fetch_result \<Rightarrow> state \<Rightarrow> state" where
  "settle now date r st =
     (let m = (case try_block now date r of
                 Some answer \<Rightarrow> answer
               | None \<Rightarrow> errorMessage now date)
      in st\<lparr> messages := messages st @ [m], isLoading := False \<rparr>)"

text \<open>
  One call of \<open>handleSendMessage\<close> with nothing else happening while it waits. \<open>fetch\<close>
  is the environment: for the request, what the promise settles to and the clock values
  read afterwards, or \<open>None\<close> when it never settles (the source sets no timeout and no abort
  signal, so the \<open>await\<close> then never resumes). The result is the state the call leaves and
  the requests it issued.
\<close>

definition handleSendMessage ::
  "int \<Rightarrow> int \<Rightarrow> (request \<Rightarrow> (fetch_result \<times> int \<times> int) option) \<Rightarrow> state
     \<Rightarrow> state \<times> request list" where
  "handleSendMessage now date fetch st =
     (case begin_send now date st of
        (st1, None) \<Rightarrow> (st1, [])
      | (st1, Some req) \<Rightarrow>
          (case fetch req of
             None \<Rightarrow> (st1, [req])
           | Some (r, now', date') \<Rightarrow> (settle now' date' r st1, [req])))"

subsection \<open>The component as a transition system\<close>

text \<open>
  The events the component reacts to. The text area is disabled while loading (line 236),
  the send button while \<open>send_disabled\<close> (line 242), and the suggestions are there while
  there is one message (line 258). \<open>sent\<close> records the requests issued, \<open>pending\<close> counts
  the ones that have not settled.
\<close>

record world =
  ui :: state
  sent :: "request list"
  pending :: nat

datatype event =
    Change jsstring
  | ClickSend int int
  | KeyPress jsstring bool int int
  | ClickSuggestion nat
  | Settled fetch_result int int

definition suggestions :: "jsstring list" where
  "suggestions =
     [js ''What is Startup India?'', js ''How to register a startup?'',
      js ''Tax exemptions available?'', js ''Funding opportunities?'']"

definition send :: "int \<Rightarrow> int \<Rightarrow> world \<Rightarrow> world" where
  "send now date w =
     (case begin_send now date (ui w) of
        (st, None) \<Rightarrow> w\<lparr> ui := st \<rparr>
      | (st, Some req) \<Rightarrow> w\<lparr> ui := st, sent := sent w @ [req], pending := pending w + 1 \<rparr>)"

fun step :: "world \<Rightarrow> event \<Rightarrow> world" where
  "step w (Change v) =
     (if isLoading (ui w) then w else w\<lparr> ui := (ui w)\<lparr> inputValue := v \<rparr> \<rparr>)"
| "step w (ClickSend now date) = send now date w"
| "step w (KeyPress key shift now date) =
     (if isLoading (ui w) then w
      else if key = js ''Enter'' \<and> \<not> shift then send now date w
      else w)"
| "step w (ClickSuggestion i) =
     (if length (messages (ui w)) = 1 \<and> i < length suggestions
      then w\<lparr> ui := (ui w)\<lparr> inputValue := suggestions ! i \<rparr> \<rparr>
      else w)"
| "step w (Settled r now date) =
     (if pending w = 0 then w
      else w\<lparr> ui := settle now date r (ui w), pending := pending w - 1 \<rparr>)"

definition run :: "world \<Rightarrow> event list \<Rightarrow> world" where
  "run w evs = foldl step w evs"

definition initial_world :: "int \<Rightarrow> world" where
  "initial_world date = \<lparr> ui = initial_state date, sent = [], pending = 0 \<rparr>"

text \<open>
  The invariant that ties the loading flag to the requests in flight: the flag is set exactly
  while one request is pending, and there is never more than one.
\<close>

definition loading_inv :: "world \<Rightarrow> bool" where
  "loading_inv w = (isLoading (ui w) = (pending w = 1) \<and> pending w \<le> 1)"

section \<open>The statements of the specification the code is compared with\<close>

text \<open>
  The similarity as the specification words it: \<open>(1 - distance) * 100\<close>, clamped to
  \<open>[0, 100]\<close>, as an exact number. It is compared with \<open>similarity\<close> above.
\<close>

definition similarity_spec :: "rat \<Rightarrow> rat" where
  "similarity_spec d = max 0 (min 100 ((1 - d) * 100))"

subsection \<open>Confidence scorer and fallback policy\<close>

text \<open>
  Modelled from the spec: the Confidence Scorer of section 4.3, which the repository keeps in
  \<open>query_handler.py\<close>, a file that is not among the sources. It takes the distances of
  the retrieved passages, turns each into a similarity \<open>1 - distance\<close>, combines them and
  returns a value in \<open>[0, 1]\<close>, and exactly 0 when nothing was retrieved. The weighted
  combination with its penalties, which the specification leaves to policy constants, is the
  parameter \<open>combine\<close>.
\<close>

definition score :: "(real list \<Rightarrow> real) \<Rightarrow> real list \<Rightarrow> real" where
  "score combine retrieved =
     (if retrieved = [] then 0
      else max 0 (min 1 (combine (map (\<lambda>d. 1 - d) retrieved))))"

datatype topic =
  General | Eligibility | Registration | Funding | Tax | Women_entrepreneurs | Off_topic | Unknown

datatype fallback_state = ANSWERABLE | HEDGE | REFUSE

text \<open>
  Modelled from the spec: the Fallback Policy of section 4.4 (also of \<open>query_handler.py\<close>),
  one rule for each of its three transition rules, as they are worded, with the thresholds
  \<open>low\<close> and \<open>high\<close> as parameters. The specification does not say which rule wins
  where two of them apply, so the policy is a relation.
\<close>

inductive fallback_policy ::
  "real \<Rightarrow> real \<Rightarrow> real \<Rightarrow> bool \<Rightarrow> topic \<Rightarrow> fallback_state \<Rightarrow> bool"
  for low :: real and high :: real where
  answerable:
    "high \<le> confidence \<Longrightarrow> \<not> retrieved_empty \<Longrightarrow>
     fallback_policy low high confidence retrieved_empty topic ANSWERABLE"
| hedge:
    "low \<le> confidence \<Longrightarrow> confidence < high \<Longrightarrow>
     fallback_policy low high confidence retrieved_empty topic HEDGE"
| refuse:
    "confidence < low \<or> retrieved_empty \<or> topic = Off_topic \<Longrightarrow>
     fallback_policy low high confidence retrieved_empty topic REFUSE"

code_pred fallback_policy .

text \<open>
  Modelled from the spec: what section 4.4 says each state does with the completion service
  and with the sources of the answer (\<open>REFUSE\<close> skips the completion service and returns
  empty sources; the other two synthesize, and an answer carries at most 3 sources).
\<close>

fun calls_completion :: "fallback_state \<Rightarrow> bool" where
  "calls_completion ANSWERABLE = True"
| "calls_completion HEDGE = True"
| "calls_completion REFUSE = False"

fun answer_sources :: "fallback_state \<Rightarrow> 'a list \<Rightarrow> 'a list" where
  "answer_sources REFUSE retrieved = []"
| "answer_sources s retrieved = take 3 retrieved"

section \<open>Properties of double rounding\<close>

text \<open>
  \<open>binade\<close> is the binary exponent, rounding to an integer errs by at most a half and
  does not pass an integer bound, and so rounding to a double does not pass a bound that is
  itself a double and errs by at most half a unit in the last place of that bound.
\<close>

lemma pow2_pos: "0 < (2::rat) powi k"
  by simp

lemma pow2_Suc: "(2::rat) powi (k + 1) = 2 * 2 powi k"
  by (simp add: power_int_add)

lemma pow2_pred: "(2::rat) powi (k - 1) = 2 powi k / 2"
  using power_int_add [of "2::rat" k "- 1"] by (simp add: power_int_minus)

lemma binade_bounds: "0 < x \<Longrightarrow> 2 powi binade x \<le> x \<and> x < 2 powi (binade x + 1)"
proof (induction x rule: binade.induct)
  case (1 x)
  show ?case
  proof (cases "2 \<le> x")
    case True
    with 1 have ih: "2 powi binade (x / 2) \<le> x / 2 \<and> x / 2 < 2 powi (binade (x / 2) + 1)"
      by simp
    from True "1.prems" have b: "binade x = binade (x / 2) + 1"
      by (subst binade.simps) simp
    from ih pow2_Suc [of "binade (x / 2)"] pow2_Suc [of "binade (x / 2) + 1"]
    show ?thesis unfolding b by linarith
  next
    case False
    show ?thesis
    proof (cases "x < 1")
      case True
      with False 1 have ih: "2 powi binade (x * 2) \<le> x * 2 \<and> x * 2 < 2 powi (binade (x * 2) + 1)"
        by simp
      from True False "1.prems" have b: "binade x = binade (x * 2) - 1"
        by (subst binade.simps) simp
      have g1: "2 powi (binade (x * 2) - 1) \<le> x"
        using ih pow2_pred [of "binade (x * 2)"] by linarith
      have g2: "x < 2 powi binade (x * 2)"
        using ih pow2_Suc [of "binade (x * 2)"] by linarith
      show ?thesis unfolding b using g1 g2 by simp
    next
      case x: False
      with False "1.prems" have b: "binade x = 0"
        by (subst binade.simps) simp
      from x False show ?thesis unfolding b by simp
    qed
  qed
qed

lemma pow2_less_exp: "(2::rat) powi a < 2 powi b \<Longrightarrow> a < b"
proof (rule ccontr)
  assume l: "2 powi a < (2::rat) powi b" and "\<not> a < b"
  then have "b \<le> a" by simp
  then have "(2::rat) powi b \<le> 2 powi a" by (intro power_int_increasing) simp_all
  with l show False by simp
qed

lemma binade_unique:
  assumes "0 < x" "2 powi k \<le> x" "x < 2 powi (k + 1)"
  shows "binade x = k"
proof -
  from binade_bounds [OF assms(1)]
  have b: "2 powi binade x \<le> x" "x < 2 powi (binade x + 1)" by simp_all
  have "2 powi k < (2::rat) powi (binade x + 1)" using assms(2) b(2) by simp
  then have "k < binade x + 1" by (rule pow2_less_exp)
  moreover have "2 powi binade x < (2::rat) powi (k + 1)" using assms(3) b(1) by simp
  then have "binade x < k + 1" by (rule pow2_less_exp)
  ultimately show ?thesis by simp
qed

lemma binade_mono:
  assumes "0 < x" "x \<le> y"
  shows "binade x \<le> binade y"
proof -
  have y: "0 < y" using assms by simp
  from binade_bounds [OF assms(1)] binade_bounds [OF y]
  have "2 powi binade x < (2::rat) powi (binade y + 1)" using assms(2) by simp
  then have "binade x < binade y + 1" by (rule pow2_less_exp)
  then show ?thesis by simp
qed

lemma round_even_error: "\<bar>of_int (round_even x) - x\<bar> \<le> 1 / 2"
proof -
  have "of_int \<lfloor>x\<rfloor> \<le> x" "x < of_int \<lfloor>x\<rfloor> + 1" by linarith+
  then show ?thesis by (auto simp add: round_even_def Let_def abs_le_iff)
qed

lemma round_even_le: "x \<le> of_int k \<Longrightarrow> round_even x \<le> k"
proof -
  assume a: "x \<le> of_int k"
  have f: "\<lfloor>x\<rfloor> \<le> k" using a by (simp add: floor_le_iff)
  show ?thesis
  proof (cases "\<lfloor>x\<rfloor> = k")
    case True
    then have "x - of_int \<lfloor>x\<rfloor> \<le> 0" using a by simp
    then show ?thesis using True by (simp add: round_even_def Let_def)
  next
    case False
    with f have "\<lfloor>x\<rfloor> + 1 \<le> k" by simp
    then show ?thesis using f by (simp add: round_even_def Let_def)
  qed
qed

lemma round_even_nonneg: "0 \<le> x \<Longrightarrow> 0 \<le> round_even x"
proof -
  assume "0 \<le> x"
  then have "0 \<le> \<lfloor>x\<rfloor>" by simp
  then show ?thesis by (simp add: round_even_def Let_def)
qed

lemma round_double_nonneg_unfold:
  assumes "0 \<le> x"
  shows "round_double x =
    (if 2 ^ 1024 \<le> rat_of_int (round_even (x / 2 powi max (binade x - 52) (- 1074)))
           * 2 powi max (binade x - 52) (- 1074)
     then Infinity False
     else Finite (rat_of_int (round_even (x / 2 powi max (binade x - 52) (- 1074)))
           * 2 powi max (binade x - 52) (- 1074)))"
  using assms by (simp add: round_double_def Let_def abs_of_nonneg)

lemma round_double_le:
  assumes x: "0 \<le> x" "x \<le> b"
    and b: "b = of_int N * 2 powi t" "t = max (binade b - 52) (- 1074)" "b < 2 ^ 1024"
  shows "\<exists>y. round_double x = Finite y \<and> 0 \<le> y \<and> y \<le> b \<and> \<bar>y - x\<bar> \<le> 2 powi (t - 1)"
proof (cases "x = 0")
  case True
  have "binade 0 = 0" by (subst binade.simps) simp
  then have "round_double 0 = Finite 0"
    by (simp add: round_double_def round_even_def)
  with True x show ?thesis by simp
next
  case False
  with x have pos: "0 < x" by simp
  define s where "s = max (binade x - 52) (- 1074)"
  define m where "m = round_even (x / 2 powi s)"
  define y where "y = rat_of_int m * 2 powi s"
  have ps: "0 < (2::rat) powi s" by simp
  have "binade x \<le> binade b" using pos x(2) by (rule binade_mono)
  then have st: "s \<le> t" by (simp add: s_def b(2))
  have "b / 2 powi s = of_int N * (2 powi t / 2 powi s)" by (simp add: b(1))
  also have "2 powi t / (2::rat) powi s = 2 powi (t - s)"
    using power_int_add [of "2::rat" t "- s"] by (simp add: power_int_minus field_simps)
  also have "(2::rat) powi (t - s) = of_int (2 ^ nat (t - s))"
    using st by (simp add: power_int_def)
  finally have bs: "b / 2 powi s = of_int (N * 2 ^ nat (t - s))" by simp
  have "x / 2 powi s \<le> b / 2 powi s" using x(2) ps by (simp add: divide_right_mono)
  then have "m \<le> N * 2 ^ nat (t - s)" unfolding m_def bs by (rule round_even_le)
  then have "rat_of_int m \<le> of_int (N * 2 ^ nat (t - s))" by (simp only: of_int_le_iff)
  then have "y \<le> (b / 2 powi s) * 2 powi s" unfolding y_def bs using ps
    by (intro mult_right_mono) simp_all
  then have yb: "y \<le> b" by simp
  have "0 \<le> x / 2 powi s" using pos by simp
  then have "0 \<le> m" unfolding m_def by (rule round_even_nonneg)
  then have y0: "0 \<le> y" by (simp add: y_def)
  have "\<bar>rat_of_int m - x / 2 powi s\<bar> \<le> 1 / 2" unfolding m_def by (rule round_even_error)
  then have "\<bar>rat_of_int m - x / 2 powi s\<bar> * 2 powi s \<le> 1 / 2 * 2 powi s"
    using ps by (intro mult_right_mono) simp_all
  moreover have "\<bar>rat_of_int m - x / 2 powi s\<bar> * 2 powi s = \<bar>y - x\<bar>"
  proof -
    have e: "y - x = (rat_of_int m - x / 2 powi s) * 2 powi s"
      by (simp add: y_def algebra_simps)
    show ?thesis unfolding e by (simp add: abs_mult)
  qed
  moreover have "1 / 2 * (2::rat) powi s = 2 powi (s - 1)" by (simp add: pow2_pred)
  moreover have "(2::rat) powi (s - 1) \<le> 2 powi (t - 1)"
    using st by (intro power_int_increasing) simp_all
  ultimately have err: "\<bar>y - x\<bar> \<le> 2 powi (t - 1)" by simp
  have "\<not> 2 ^ 1024 \<le> y" using yb b(3) by simp
  then have "round_double x = Finite y"
    using round_double_nonneg_unfold [OF x(1)] by (simp add: y_def m_def s_def)
  with y0 yb err show ?thesis by simp
qed

lemma binade_1: "binade 1 = 0"
  by (subst binade.simps) simp

lemma binade_100: "binade 100 = 6"
  by (rule binade_unique) simp_all

lemma round_double_unit:
  assumes "0 \<le> x" "x \<le> 1"
  shows "\<exists>y. round_double x = Finite y \<and> 0 \<le> y \<and> y \<le> 1 \<and> \<bar>y - x\<bar> \<le> 1 / 2 ^ 53"
proof -
  have "\<exists>y. round_double x = Finite y \<and> 0 \<le> y \<and> y \<le> 1 \<and> \<bar>y - x\<bar> \<le> 2 powi (- 52 - 1)"
    by (rule round_double_le [where N = "2 ^ 52"]) (use assms in \<open>simp_all add: binade_1\<close>)
  then show ?thesis by (simp add: power_int_minus)
qed

lemma round_double_percent:
  assumes "0 \<le> x" "x \<le> 100"
  shows "\<exists>y. round_double x = Finite y \<and> 0 \<le> y \<and> y \<le> 100 \<and> \<bar>y - x\<bar> \<le> 1 / 2 ^ 47"
proof -
  have "\<exists>y. round_double x = Finite y \<and> 0 \<le> y \<and> y \<le> 100 \<and> \<bar>y - x\<bar> \<le> 2 powi (- 46 - 1)"
    by (rule round_double_le [where N = "100 * 2 ^ 46"]) (use assms in \<open>simp_all add: binade_100\<close>)
  then show ?thesis by (simp add: power_int_minus)
qed

lemma round_double_1: "round_double 1 = Finite 1"
  by (simp add: round_double_def binade_1 round_even_def)

lemma round_double_100: "round_double 100 = Finite 100"
  by (simp add: round_double_def binade_100 round_even_def)

section \<open>Properties of the rendering\<close>

subsection \<open>Helper facts\<close>

lemma hasUrl_distance: "hasUrl (s\<lparr>distance := d\<rparr>) = hasUrl s"
  by (simp add: hasUrl_def)

lemma title'_distance: "title' (s\<lparr>distance := d\<rparr>) = title' s"
  by (simp add: title'_def)

lemma element_distance:
  "element (render_source (s\<lparr>distance := d\<rparr>)) = element (render_source s)"
  by (simp add: render_source_def hasUrl_distance title'_distance Let_def split: option.splits)

lemma percent_render: "percent (render_source s) = toFixed0 (similarity s)"
  by (simp add: render_source_def)

lemma render_source_distance:
  "or_zero d = or_zero e \<Longrightarrow>
   render_source (s\<lparr>distance := d\<rparr>) = render_source (s\<lparr>distance := e\<rparr>)"
  by (rule rendered_source.equality) (simp_all add: element_distance percent_render similarity_def)

lemma floor_rat_numeral_div: "\<lfloor>numeral a / numeral b :: rat\<rfloor> = numeral a div numeral b"
  by (metis floor_divide_of_int_eq of_int_numeral)

lemma toFixed0_100: "toFixed0 (Finite 100) = Digits False 100"
  by (simp add: floor_rat_numeral_div)

lemma similarity_zero: "or_zero (distance s) = Finite 0 \<Longrightarrow> similarity s = Finite 100"
  by (simp add: similarity_def round_double_1 round_double_100)

lemma ascending_Nil: "ascending []"
  by (simp add: ascending_def)

lemma ascending_take: "ascending ss \<Longrightarrow> ascending (take n ss)"
  by (simp add: ascending_def sorted_wrt_take)

lemma sources_botMessage:
  "sources (botMessage now date data) = Some (case data_sources data of None \<Rightarrow> [] | Some ss \<Rightarrow> ss)"
  by (simp add: botMessage_def)

lemma sources_shown_botMessage:
  "sources_shown (botMessage now date data)
     = take 3 (case data_sources data of None \<Rightarrow> [] | Some ss \<Rightarrow> ss)"
  by (simp add: sources_shown_def botMessage_def)

lemma binade_2: "binade 2 = 1"
  by (rule binade_unique) simp_all

lemma binade_200: "binade 200 = 7"
  by (rule binade_unique) simp_all

lemma round_double_minus_1: "round_double (- 1) = Finite (- 1)"
  by (simp add: round_double_def binade_1 round_even_def)

lemma round_double_minus_100: "round_double (- 100) = Finite (- 100)"
  by (simp add: round_double_def binade_100 round_even_def)

lemma round_double_2: "round_double 2 = Finite 2"
  by (simp add: round_double_def binade_2 round_even_def)

lemma round_double_200: "round_double 200 = Finite 200"
  by (simp add: round_double_def binade_200 round_even_def)

text \<open>
  The literal \<open>0.425\<close> is read as the double just below it, and the similarity of a source
  at that distance is the double \<open>57.49999999999999\<close>.
\<close>

lemma parse_0425: "round_double (425 / 1000) = Finite (7656119366529843 / 18014398509481984)"
  by code_simp

lemma similarity_0425:
  "similarity \<lparr>title = None, url = None, filename = None,
       distance = Num (Finite (7656119366529843 / 18014398509481984))\<rparr>
     = Finite (8092405580431359 / 140737488355328)"
  by code_simp

subsection \<open>The similarity shown (C1)\<close>

text \<open>
  C1 says that the similarity shown for a source is \<open>(1 - distance) * 100\<close> clamped to
  \<open>[0, 100]\<close>. Line 159 has no clamp. With the distance 2 the similarity is \<open>-100\<close> and the
  text shown is \<open>-100\<close>, where the specification's clamped value is 0; with the distance
  \<open>-1\<close> it is 200, where the clamped value is 100. None of these operations rounds.
\<close>

theorem similarity_unclamped_counterexample:
  "similarity \<lparr>title = None, url = None, filename = None, distance = Num (Finite 2)\<rparr>
     = Finite (- 100)
   \<and> percent (render_source
         \<lparr>title = None, url = None, filename = None, distance = Num (Finite 2)\<rparr>)
       = Digits True 100
   \<and> similarity_spec 2 = 0
   \<and> similarity \<lparr>title = None, url = None, filename = None, distance = Num (Finite (- 1))\<rparr>
     = Finite 200
   \<and> percent (render_source
         \<lparr>title = None, url = None, filename = None, distance = Num (Finite (- 1))\<rparr>)
       = Digits False 200
   \<and> similarity_spec (- 1) = 100"
  by (simp add: similarity_def similarity_spec_def percent_render round_double_minus_1
      round_double_minus_100 round_double_2 round_double_200 floor_rat_numeral_div)

text \<open>
  C1 as amended: for every source whose distance is a number \<open>d\<close> with \<open>0 \<le> d \<le> 1\<close>, the
  similarity is the double that \<open>(1 - d) * 100\<close> gives with its two roundings: a finite
  number in \<open>[0, 100]\<close>, within \<open>2^(-45)\<close> of the exact (and there unclamped) value of the
  specification, and the text shown is the integer nearest to it, between 0 and 100.
  Nothing is clamped, so outside that range of distances the bounds are not kept, as the
  counterexample shows.
\<close>

theorem similarity_in_unit_range:
  assumes "distance s = Num (Finite d)" and "0 \<le> d" and "d \<le> 1"
  shows "\<exists>v. similarity s = Finite v \<and> 0 \<le> v \<and> v \<le> 100
      \<and> \<bar>v - similarity_spec d\<bar> \<le> 1 / 2 ^ 45
      \<and> percent (render_source s) = Digits False (nat \<lfloor>v + 1 / 2\<rfloor>)
      \<and> nat \<lfloor>v + 1 / 2\<rfloor> \<le> 100"
proof -
  from assms(1) have oz: "or_zero (distance s) = Finite d" by simp
  have "0 \<le> 1 - d" "1 - d \<le> 1" using assms by simp_all
  from round_double_unit [OF this]
  obtain y where y: "round_double (1 - d) = Finite y" "0 \<le> y" "y \<le> 1"
    "\<bar>y - (1 - d)\<bar> \<le> 1 / 2 ^ 53" by blast
  have "0 \<le> y * 100" "y * 100 \<le> 100" using y(2,3) by simp_all
  from round_double_percent [OF this]
  obtain v where v: "round_double (y * 100) = Finite v" "0 \<le> v" "v \<le> 100"
    "\<bar>v - y * 100\<bar> \<le> 1 / 2 ^ 47" by blast
  have sim: "similarity s = Finite v" by (simp add: similarity_def oz y(1) v(1))
  have spec: "similarity_spec d = (1 - d) * 100"
    using assms(2,3) by (simp add: similarity_spec_def max_def min_def)
  have "v - (1 - d) * 100 = (v - y * 100) + 100 * (y - (1 - d))" by (simp add: algebra_simps)
  then have "\<bar>v - (1 - d) * 100\<bar> \<le> \<bar>v - y * 100\<bar> + \<bar>100 * (y - (1 - d))\<bar>"
    by (simp only: abs_triangle_ineq)
  also have "\<bar>100 * (y - (1 - d))\<bar> = 100 * \<bar>y - (1 - d)\<bar>" by (simp only: abs_mult abs_numeral)
  finally have "\<bar>v - (1 - d) * 100\<bar> \<le> \<bar>v - y * 100\<bar> + 100 * \<bar>y - (1 - d)\<bar>" .
  also have "\<dots> \<le> 1 / 2 ^ 47 + 100 * (1 / 2 ^ 53)"
    by (intro add_mono mult_left_mono y(4) v(4)) simp
  also have "\<dots> \<le> 1 / 2 ^ 45" by simp
  finally have err: "\<bar>v - similarity_spec d\<bar> \<le> 1 / 2 ^ 45" by (simp add: spec)
  have "\<lfloor>v + 1 / 2\<rfloor> \<le> 100" using v(3) by (simp add: floor_le_iff)
  then have n: "nat \<lfloor>v + 1 / 2\<rfloor> \<le> 100" by linarith
  have "v < 10 ^ 21" using v(3) by simp
  then have shown: "percent (render_source s) = Digits False (nat \<lfloor>v + 1 / 2\<rfloor>)"
    using v(2) by (simp add: percent_render sim Let_def)
  from sim v(2,3) err shown n show ?thesis by blast
qed

text \<open>
  Witness of C1: the distance 0.425, that is the double nearest to it. The similarity is
  57.49999999999999, shown as 57 (the exact product 57.5 would be shown as 58).
\<close>

theorem similarity_in_unit_range_witness:
  "similarity \<lparr>title = None, url = None, filename = None,
       distance = Num (Finite (7656119366529843 / 18014398509481984))\<rparr>
     = Finite (8092405580431359 / 140737488355328)
   \<and> percent (render_source \<lparr>title = None, url = None, filename = None,
       distance = Num (Finite (7656119366529843 / 18014398509481984))\<rparr>) = Digits False 57
   \<and> \<bar>8092405580431359 / 140737488355328
        - similarity_spec (7656119366529843 / 18014398509481984)\<bar> \<le> 1 / 2 ^ 45"
proof -
  let ?d = "7656119366529843 / 18014398509481984 :: rat"
  let ?s = "\<lparr>title = None, url = None, filename = None, distance = Num (Finite ?d)\<rparr>"
  have d: "distance ?s = Num (Finite ?d)" by simp
  have lo: "0 \<le> ?d" by simp
  have hi: "?d \<le> 1" by simp
  from similarity_in_unit_range [OF d lo hi]
  obtain v where v: "similarity ?s = Finite v"
    "\<bar>v - similarity_spec ?d\<bar> \<le> 1 / 2 ^ 45"
    "percent (render_source ?s) = Digits False (nat \<lfloor>v + 1 / 2\<rfloor>)" by blast
  from v(1) have q: "v = 8092405580431359 / 140737488355328"
    by (simp only: similarity_0425 double.inject)
  have "nat \<lfloor>8092405580431359 / 140737488355328 + 1 / 2 :: rat\<rfloor> = 57"
    by (simp add: floor_rat_numeral_div)
  with v q similarity_0425 show ?thesis by simp
qed

text \<open>
  The bounds are lost outside \<open>[0, 1]\<close> only as far as the rounding lets them: for the
  negative distance \<open>-2^(-60)\<close> the difference \<open>1 - d\<close> rounds to 1 and the similarity is
  exactly 100.
\<close>

lemma tiny_negative_distance:
  "similarity \<lparr>title = None, url = None, filename = None,
       distance = Num (Finite (- 1 / 2 ^ 60))\<rparr> = Finite 100"
  by code_simp

subsection \<open>The sources presented (C2)\<close>

text \<open>
  C2 says that the sources presented are at most 3, a prefix of the retriever's output, and
  in ascending order of distance. The component takes the first three of the list it
  receives and never sorts: for a response whose sources come at the distances 0.75, 0.25,
  0.5 and 0.125, the three presented are at 0.75, 0.25 and 0.5, which is not ascending.
\<close>

theorem shown_sources_unsorted_counterexample:
  "sources_shown (botMessage 7 7 \<lparr>response = js ''ok'', data_sources = Some
      [\<lparr>title = None, url = None, filename = None, distance = Num (Finite (3 / 4))\<rparr>,
       \<lparr>title = None, url = None, filename = None, distance = Num (Finite (1 / 4))\<rparr>,
       \<lparr>title = None, url = None, filename = None, distance = Num (Finite (1 / 2))\<rparr>,
       \<lparr>title = None, url = None, filename = None, distance = Num (Finite (1 / 8))\<rparr>]\<rparr>)
   = [\<lparr>title = None, url = None, filename = None, distance = Num (Finite (3 / 4))\<rparr>,
      \<lparr>title = None, url = None, filename = None, distance = Num (Finite (1 / 4))\<rparr>,
      \<lparr>title = None, url = None, filename = None, distance = Num (Finite (1 / 2))\<rparr>]
   \<and> \<not> ascending (sources_shown (botMessage 7 7 \<lparr>response = js ''ok'', data_sources = Some
      [\<lparr>title = None, url = None, filename = None, distance = Num (Finite (3 / 4))\<rparr>,
       \<lparr>title = None, url = None, filename = None, distance = Num (Finite (1 / 4))\<rparr>,
       \<lparr>title = None, url = None, filename = None, distance = Num (Finite (1 / 2))\<rparr>,
       \<lparr>title = None, url = None, filename = None, distance = Num (Finite (1 / 8))\<rparr>]\<rparr>))"
  by (simp add: sources_shown_botMessage ascending_def)

text \<open>
  C2 as amended: the sources presented for a message are at most 3 and are a prefix of the
  sources the message carries, in the order received (for an answer, the first 3 of the
  response's list); the component does not sort them, so they are in ascending order of
  distance whenever the received list is.
\<close>

theorem shown_sources_prefix:
  "length (sources_shown m) \<le> 3
   \<and> prefix (sources_shown m) (case sources m of None \<Rightarrow> [] | Some ss \<Rightarrow> ss)
   \<and> (ascending (case sources m of None \<Rightarrow> [] | Some ss \<Rightarrow> ss) \<longrightarrow> ascending (sources_shown m))
   \<and> sources_shown (botMessage now date data)
       = take 3 (case data_sources data of None \<Rightarrow> [] | Some ss \<Rightarrow> ss)"
proof -
  have "length (sources_shown m) \<le> 3"
    by (simp add: sources_shown_def split: option.splits)
  moreover have "prefix (sources_shown m) (case sources m of None \<Rightarrow> [] | Some ss \<Rightarrow> ss)"
    by (simp add: sources_shown_def take_is_prefix split: option.splits)
  moreover have "ascending (case sources m of None \<Rightarrow> [] | Some ss \<Rightarrow> ss)
      \<longrightarrow> ascending (sources_shown m)"
    by (simp add: sources_shown_def ascending_take ascending_Nil split: option.splits)
  ultimately show ?thesis
    by (simp add: sources_shown_botMessage)
qed

text \<open>
  Witness of C2: a response with four sources at the distances 0.125, 0.25, 0.5 and 0.75;
  the first three are presented, in ascending order.
\<close>

theorem shown_sources_prefix_witness:
  "sources_shown (botMessage 7 7 \<lparr>response = js ''ok'', data_sources = Some
      [\<lparr>title = None, url = None, filename = None, distance = Num (Finite (1 / 8))\<rparr>,
       \<lparr>title = None, url = None, filename = None, distance = Num (Finite (1 / 4))\<rparr>,
       \<lparr>title = None, url = None, filename = None, distance = Num (Finite (1 / 2))\<rparr>,
       \<lparr>title = None, url = None, filename = None, distance = Num (Finite (3 / 4))\<rparr>]\<rparr>)
   = [\<lparr>title = None, url = None, filename = None, distance = Num (Finite (1 / 8))\<rparr>,
      \<lparr>title = None, url = None, filename = None, distance = Num (Finite (1 / 4))\<rparr>,
      \<lparr>title = None, url = None, filename = None, distance = Num (Finite (1 / 2))\<rparr>]
   \<and> ascending (sources_shown (botMessage 7 7 \<lparr>response = js ''ok'', data_sources = Some
      [\<lparr>title = None, url = None, filename = None, distance = Num (Finite (1 / 8))\<rparr>,
       \<lparr>title = None, url = None, filename = None, distance = Num (Finite (1 / 4))\<rparr>,
       \<lparr>title = None, url = None, filename = None, distance = Num (Finite (1 / 2))\<rparr>,
       \<lparr>title = None, url = None, filename = None, distance = Num (Finite (3 / 4))\<rparr>]\<rparr>))"
proof -
  let ?ss = "[\<lparr>title = None, url = None, filename = None, distance = Num (Finite (1 / 8))\<rparr>,
       \<lparr>title = None, url = None, filename = None, distance = Num (Finite (1 / 4))\<rparr>,
       \<lparr>title = None, url = None, filename = None, distance = Num (Finite (1 / 2))\<rparr>,
       \<lparr>title = None, url = None, filename = None, distance = Num (Finite (3 / 4))\<rparr>]"
  let ?m = "botMessage 7 7 \<lparr>response = js ''ok'', data_sources = Some ?ss\<rparr>"
  have src: "sources ?m = Some ?ss" by (simp add: sources_botMessage)
  have asc: "ascending ?ss" by (simp add: ascending_def)
  have shown: "sources_shown ?m = take 3 ?ss" by (simp add: sources_shown_botMessage)
  have "ascending (case sources ?m of None \<Rightarrow> [] | Some ss \<Rightarrow> ss)
      \<longrightarrow> ascending (sources_shown ?m)"
    using shown_sources_prefix [of ?m 7 7 "\<lparr>response = js ''ok'', data_sources = Some ?ss\<rparr>"]
    by blast
  with src asc have "ascending (sources_shown ?m)" by simp
  with shown show ?thesis by simp
qed

subsection \<open>A missing distance (C9)\<close>

text \<open>
  C9: a source whose distance is \<open>undefined\<close>, \<open>null\<close> or 0 is rendered with the similarity
  100, shown as \<open>100\<close>, and its whole rendering is that of the same source at distance 0.
\<close>

theorem missing_distance_is_full_match:
  assumes "distance s = Undefined \<or> distance s = Null \<or> distance s = Num (Finite 0)"
  shows "similarity s = Finite 100
    \<and> percent (render_source s) = Digits False 100
    \<and> render_source s = render_source (s\<lparr>distance := Num (Finite 0)\<rparr>)"
proof -
  from assms have z: "or_zero (distance s) = Finite 0" by auto
  then have sim: "similarity s = Finite 100" by (rule similarity_zero)
  have "render_source (s\<lparr>distance := distance s\<rparr>)
      = render_source (s\<lparr>distance := Num (Finite 0)\<rparr>)"
    by (rule render_source_distance) (simp add: z)
  then have same: "render_source s = render_source (s\<lparr>distance := Num (Finite 0)\<rparr>)" by simp
  have shown: "percent (render_source s) = Digits False 100"
    by (simp only: percent_render sim toFixed0_100)
  from sim shown same show ?thesis by blast
qed

text \<open>Witness of C9: a source with no \<open>distance\<close> field.\<close>

theorem missing_distance_is_full_match_witness:
  "similarity \<lparr>title = Some (js ''Seed Fund''), url = None, filename = None,
       distance = Undefined\<rparr> = Finite 100
   \<and> percent (render_source \<lparr>title = Some (js ''Seed Fund''), url = None, filename = None,
       distance = Undefined\<rparr>) = Digits False 100
   \<and> render_source \<lparr>title = Some (js ''Seed Fund''), url = None, filename = None,
       distance = Undefined\<rparr>
     = render_source \<lparr>title = Some (js ''Seed Fund''), url = None, filename = None,
       distance = Num (Finite 0)\<rparr>"
proof -
  let ?s = "\<lparr>title = Some (js ''Seed Fund''), url = None, filename = None,
       distance = Undefined\<rparr>"
  have "distance ?s = Undefined \<or> distance ?s = Null \<or> distance ?s = Num (Finite 0)" by simp
  from missing_distance_is_full_match [OF this, simplified] show ?thesis .
qed

subsection \<open>Links (C10)\<close>

text \<open>
  C10: a source is rendered as a link exactly when its \<open>url\<close> is present, not empty and not
  the string \<open>Unknown\<close>; otherwise it is a plain span. Either way the text is the title of
  line 160.
\<close>

theorem link_iff_url:
  "is_link (element (render_source s))
     = (\<exists>u. url s = Some u \<and> u \<noteq> js '''' \<and> u \<noteq> js ''Unknown'')
   \<and> label (element (render_source s)) = title' s"
  by (auto simp add: render_source_def hasUrl_def Let_def js_def split: option.splits)

section \<open>Properties of \<open>handleSendMessage\<close>\<close>

subsection \<open>Helper facts\<close>

lemma trim_empty_iff: "(trim s = []) = (\<forall>c\<in>set s. is_ws c)"
proof
  assume "trim s = []"
  then have a: "\<forall>c\<in>set (dropWhile is_ws s). is_ws c"
    by (simp add: trim_def dropWhile_eq_Nil_conv)
  have "dropWhile is_ws s = []"
  proof (cases "dropWhile is_ws s")
    case Nil
    then show ?thesis .
  next
    case (Cons x xs)
    then have "\<not> is_ws x" using hd_dropWhile [of is_ws s] by simp
    moreover have "is_ws x" using a Cons by simp
    ultimately show ?thesis by simp
  qed
  then show "\<forall>c\<in>set s. is_ws c" by (simp add: dropWhile_eq_Nil_conv)
next
  assume "\<forall>c\<in>set s. is_ws c"
  then show "trim s = []" by (auto simp add: trim_def dest: set_dropWhileD)
qed

lemma try_block_cases:
  "try_block now date Rejected = None"
  "try_block now date (Response False b) = None"
  "try_block now date (Response True Invalid) = None"
  "try_block now date (Response True Null_body) = None"
  "try_block now date (Response True (Data d)) = Some (botMessage now date d)"
  by (simp_all add: try_block_def)

lemma messages_settle:
  "messages (settle now date r st) =
     messages st @ [case try_block now date r of Some answer \<Rightarrow> answer
                    | None \<Rightarrow> errorMessage now date]"
  by (simp add: settle_def)

lemma isLoading_settle: "isLoading (settle now date r st) = False"
  by (simp add: settle_def)

lemma handleSendMessage_disabled:
  "send_disabled st \<Longrightarrow> handleSendMessage now date fetch st = (st, [])"
  by (simp add: handleSendMessage_def begin_send_def)

lemma handleSendMessage_never:
  "\<not> send_disabled st \<Longrightarrow> fetch (chat_request (inputValue st)) = None \<Longrightarrow>
   handleSendMessage now date fetch st =
     (st\<lparr> messages := messages st @ [userMessage now date (inputValue st)],
          inputValue := js '''', isLoading := True \<rparr>,
      [chat_request (inputValue st)])"
  by (simp add: handleSendMessage_def begin_send_def)

lemma handleSendMessage_settled:
  "\<not> send_disabled st \<Longrightarrow> fetch (chat_request (inputValue st)) = Some (r, now', date') \<Longrightarrow>
   handleSendMessage now date fetch st =
     (st\<lparr> messages := messages st @ [userMessage now date (inputValue st),
            (case try_block now' date' r of Some answer \<Rightarrow> answer
             | None \<Rightarrow> errorMessage now' date')],
          inputValue := js '''', isLoading := False \<rparr>,
      [chat_request (inputValue st)])"
  by (simp add: handleSendMessage_def begin_send_def settle_def)

lemma requests_handleSendMessage:
  "snd (handleSendMessage now date fetch st) =
     (if send_disabled st then [] else [chat_request (inputValue st)])"
  by (auto simp add: handleSendMessage_def begin_send_def split: option.splits)

lemma send_disabled_world: "send_disabled (ui w) \<Longrightarrow> send now date w = w"
  by (simp add: send_def begin_send_def)


lemma enabled_hi: "\<not> send_disabled ((initial_state 0)\<lparr>inputValue := js ''hi''\<rparr>)"
  by (simp add: send_disabled_def initial_state_def trim_def js_def is_ws_def)

lemma body_chat_request:
  "body (chat_request v) = [(''message'', JString v), (''max_results'', JNumber 5)]"
  by (simp add: chat_request_def)

subsection \<open>Blank input (C3)\<close>

text \<open>
  C3: when the input is empty or consists of white space only, the send button is disabled
  and \<open>handleSendMessage\<close> returns at its guard: the state is unchanged (no message is
  appended, the loading flag is not set) and no request is issued, whatever the backend
  would have answered. The same holds for a click on the button and for the Enter key.
\<close>

theorem blank_input_rejected:
  assumes "\<forall>c\<in>set (inputValue (ui w)). is_ws c"
  shows "send_disabled (ui w)
    \<and> handleSendMessage now date fetch (ui w) = (ui w, [])
    \<and> step w (ClickSend now date) = w
    \<and> step w (KeyPress key shift now date) = w"
proof -
  from assms have d: "send_disabled (ui w)" by (simp add: send_disabled_def trim_empty_iff)
  then show ?thesis by (simp add: handleSendMessage_disabled send_disabled_world)
qed

text \<open>Witness of C3: the input is one space.\<close>

theorem blank_input_rejected_witness:
  "handleSendMessage 5 5 (\<lambda>req. Some (Rejected, 6, 6))
       ((initial_state 0)\<lparr>inputValue := js '' ''\<rparr>)
     = ((initial_state 0)\<lparr>inputValue := js '' ''\<rparr>, [])
   \<and> step \<lparr>ui = (initial_state 0)\<lparr>inputValue := js '' ''\<rparr>, sent = [], pending = 0\<rparr>
         (ClickSend 5 5)
     = \<lparr>ui = (initial_state 0)\<lparr>inputValue := js '' ''\<rparr>, sent = [], pending = 0\<rparr>"
proof -
  let ?w = "\<lparr>ui = (initial_state 0)\<lparr>inputValue := js '' ''\<rparr>, sent = [], pending = 0\<rparr>"
  have "\<forall>c\<in>set (inputValue (ui ?w)). is_ws c" by (simp add: js_def is_ws_def)
  from blank_input_rejected [OF this, of 5 5 "\<lambda>req. Some (Rejected, 6, 6)" "js ''Enter''" False]
  show ?thesis by simp
qed

subsection \<open>A failed call (C4)\<close>






text \<open>
  In the transition system the loading flag follows the pending request: after any run from
  the initial state it is set exactly while a request has not settled.
\<close>

lemma loading_inv_send: "loading_inv w \<Longrightarrow> loading_inv (send now date w)"
  by (cases "send_disabled (ui w)")
     (auto simp add: loading_inv_def send_def begin_send_def send_disabled_def)

lemma loading_inv_step: "loading_inv w \<Longrightarrow> loading_inv (step w e)"
proof (cases e)
  case (Settled r now date)
  assume "loading_inv w"
  with Settled show ?thesis by (auto simp add: loading_inv_def isLoading_settle)
qed (auto simp add: loading_inv_send, auto simp add: loading_inv_def)

lemma loading_inv_run: "loading_inv w \<Longrightarrow> loading_inv (run w evs)"
  by (induction evs arbitrary: w) (simp_all add: run_def loading_inv_step)

lemma loading_iff_pending:
  "isLoading (ui (run (initial_world d) evs)) = (pending (run (initial_world d) evs) = 1)"
proof -
  have "loading_inv (initial_world d)"
    by (simp add: loading_inv_def initial_world_def initial_state_def)
  from loading_inv_run [OF this, of evs] show ?thesis by (simp add: loading_inv_def)
qed

subsection \<open>The request body (C5)\<close>

text \<open>
  C5 says that a request to the chat endpoint has the field \<open>message\<close>, optionally
  \<open>session_id\<close> and \<open>include_debug\<close>, and no other field. The request sent for the
  message \<open>hi\<close> has the fields \<open>message\<close> and \<open>max_results\<close>, and \<open>max_results\<close> is none
  of the three.
\<close>

theorem request_has_max_results_counterexample:
  "map (\<lambda>req. map fst (body req))
       (snd (handleSendMessage 1 1 (\<lambda>req. None) ((initial_state 0)\<lparr>inputValue := js ''hi''\<rparr>)))
     = [[''message'', ''max_results'']]
   \<and> ''max_results'' \<notin> {''message'', ''session_id'', ''include_debug''}"
  by (simp add: handleSendMessage_never [OF enabled_hi] chat_request_def)

lemma sent_send:
  "sent (send now date w) = sent w
   \<or> sent (send now date w) = sent w @ [chat_request (inputValue (ui w))]"
  by (cases "send_disabled (ui w)") (simp_all add: send_def begin_send_def)

lemma sent_step:
  "sent (step w e) = sent w \<or> (\<exists>v. sent (step w e) = sent w @ [chat_request v])"
proof (cases e)
  case (ClickSend now date)
  then show ?thesis using sent_send [of now date w] by auto
next
  case (KeyPress key shift now date)
  then show ?thesis using sent_send [of now date w] by auto
qed simp_all

lemma sent_run:
  "(\<forall>req\<in>set (sent w). \<exists>v. req = chat_request v) \<Longrightarrow>
   \<forall>req\<in>set (sent (run w evs)). \<exists>v. req = chat_request v"
proof (induction evs arbitrary: w)
  case Nil
  then show ?case by (simp add: run_def)
next
  case (Cons e evs)
  have "\<forall>req\<in>set (sent (step w e)). \<exists>v. req = chat_request v"
    using sent_step [of w e] Cons.prems by auto
  from Cons.IH [OF this] show ?case by (simp add: run_def)
qed

text \<open>
  C5 as amended: every request sent to the chat endpoint has exactly the two fields
  \<open>message\<close>, the input text as typed (not trimmed), and \<open>max_results\<close>, the number 5;
  \<open>session_id\<close> and \<open>include_debug\<close> are never sent. This holds for each call of
  \<open>handleSendMessage\<close> and for every request issued in any run of the component.
\<close>

theorem request_fields:
  "(\<forall>req\<in>set (snd (handleSendMessage now date fetch st)).
      body req = [(''message'', JString (inputValue st)), (''max_results'', JNumber 5)])
   \<and> (\<forall>req\<in>set (sent (run (initial_world d) evs)).
        \<exists>v. body req = [(''message'', JString v), (''max_results'', JNumber 5)])"
proof -
  have "\<forall>req\<in>set (sent (initial_world d)). \<exists>v. req = chat_request v"
    by (simp add: initial_world_def)
  from sent_run [OF this]
  have "\<forall>req\<in>set (sent (run (initial_world d) evs)). \<exists>v. req = chat_request v" .
  then have "\<forall>req\<in>set (sent (run (initial_world d) evs)).
        \<exists>v. body req = [(''message'', JString v), (''max_results'', JNumber 5)]"
    by (auto simp add: body_chat_request)
  then show ?thesis by (simp add: requests_handleSendMessage body_chat_request)
qed

text \<open>Witness of C5: the request sent for the message \<open>hi\<close>.\<close>

theorem request_fields_witness:
  "snd (handleSendMessage 1 1 (\<lambda>req. None) ((initial_state 0)\<lparr>inputValue := js ''hi''\<rparr>))
     = [chat_request (js ''hi'')]
   \<and> body (chat_request (js ''hi''))
     = [(''message'', JString (js ''hi'')), (''max_results'', JNumber 5)]"
proof -
  let ?st = "(initial_state 0)\<lparr>inputValue := js ''hi''\<rparr>"
  have s: "snd (handleSendMessage 1 1 (\<lambda>req. None) ?st) = [chat_request (js ''hi'')]"
    by (simp add: requests_handleSendMessage enabled_hi)
  from request_fields [of 1 1 "\<lambda>req. None" ?st 0 "[]"]
  have "body (chat_request (js ''hi''))
      = [(''message'', JString (js ''hi'')), (''max_results'', JNumber 5)]"
    unfolding s by simp
  with s show ?thesis by simp
qed

subsection \<open>No retry, no timeout (C6)\<close>

text \<open>
  C6 says that a failed call is retried exactly once, within a bounded timeout, and that
  the handler never blocks indefinitely. For the message \<open>hi\<close> and a \<open>fetch\<close> that rejects,
  the handler issues one request, not two; and when \<open>fetch\<close> never settles, the handler is
  still loading: the source sets no timeout.
\<close>

theorem no_retry_counterexample:
  "snd (handleSendMessage 1 1 (\<lambda>req. Some (Rejected, 2, 2))
          ((initial_state 0)\<lparr>inputValue := js ''hi''\<rparr>))
     = [chat_request (js ''hi'')]
   \<and> isLoading (fst (handleSendMessage 1 1 (\<lambda>req. None)
          ((initial_state 0)\<lparr>inputValue := js ''hi''\<rparr>)))"
  by (simp add: requests_handleSendMessage enabled_hi handleSendMessage_never [OF enabled_hi])

text \<open>
  C6 as amended: for every message that passes the guard, the handler issues exactly one
  request, with no retry, no backoff and no timeout of its own. When that call fails
  (\<open>fetch\<close> rejects, or the response is not OK) it fails closed: the fixed error message is
  appended and the loading flag is cleared. While the call has not settled, the handler
  stays in the loading state with only the user's message appended.
\<close>

theorem single_attempt_then_error:
  assumes "\<not> send_disabled st"
  shows "snd (handleSendMessage now date fetch st) = [chat_request (inputValue st)]
    \<and> (fetch (chat_request (inputValue st)) = Some (Rejected, now', date')
        \<or> fetch (chat_request (inputValue st)) = Some (Response False b, now', date')
       \<longrightarrow> fst (handleSendMessage now date fetch st)
            = st\<lparr> messages := messages st @
                    [userMessage now date (inputValue st), errorMessage now' date'],
                  inputValue := js '''', isLoading := False \<rparr>)
    \<and> (fetch (chat_request (inputValue st)) = None
       \<longrightarrow> fst (handleSendMessage now date fetch st)
            = st\<lparr> messages := messages st @ [userMessage now date (inputValue st)],
                  inputValue := js '''', isLoading := True \<rparr>)"
  using assms
  by (auto simp add: requests_handleSendMessage handleSendMessage_never
      handleSendMessage_settled try_block_cases)

text \<open>
  Witness of C6: the message \<open>hi\<close>, once with a \<open>fetch\<close> that rejects and once with one
  that never settles.
\<close>

theorem single_attempt_then_error_witness:
  "snd (handleSendMessage 1 1 (\<lambda>req. Some (Rejected, 2, 2))
          ((initial_state 0)\<lparr>inputValue := js ''hi''\<rparr>))
     = [chat_request (js ''hi'')]
   \<and> fst (handleSendMessage 1 1 (\<lambda>req. Some (Rejected, 2, 2))
          ((initial_state 0)\<lparr>inputValue := js ''hi''\<rparr>))
     = (initial_state 0)\<lparr> messages := messages (initial_state 0) @
            [userMessage 1 1 (js ''hi''), errorMessage 2 2],
          inputValue := js '''', isLoading := False \<rparr>
   \<and> fst (handleSendMessage 1 1 (\<lambda>req. None) ((initial_state 0)\<lparr>inputValue := js ''hi''\<rparr>))
     = (initial_state 0)\<lparr> messages := messages (initial_state 0) @
            [userMessage 1 1 (js ''hi'')],
          inputValue := js '''', isLoading := True \<rparr>"
  using single_attempt_then_error [OF enabled_hi, of 1 1 "\<lambda>req. Some (Rejected, 2, 2)" 2 2]
    single_attempt_then_error [OF enabled_hi, of 1 1 "\<lambda>req. None"]
  by simp

subsection \<open>The message history (C8)\<close>

lemma prefix_settle: "prefix (messages st) (messages (settle now date r st))"
  by (simp add: messages_settle)

lemma prefix_send: "prefix (messages (ui w)) (messages (ui (send now date w)))"
  by (cases "send_disabled (ui w)") (simp_all add: send_def begin_send_def)

lemma prefix_step: "prefix (messages (ui w)) (messages (ui (step w e)))"
  by (cases e) (simp_all add: prefix_send prefix_settle)

lemma prefix_run: "prefix (messages (ui w)) (messages (ui (run w evs)))"
proof (induction evs arbitrary: w)
  case Nil
  show ?case by (simp add: run_def)
next
  case (Cons e evs)
  have "prefix (messages (ui w)) (messages (ui (step w e)))" by (rule prefix_step)
  also have "prefix \<dots> (messages (ui (run (step w e) evs)))" by (rule Cons.IH)
  finally show ?case by (simp add: run_def)
qed

lemma prefix_handleSendMessage:
  "prefix (messages st) (messages (fst (handleSendMessage now date fetch st)))"
  by (cases "send_disabled st")
     (auto simp add: handleSendMessage_def begin_send_def messages_settle split: option.splits)

text \<open>
  C8: the message history is append-only. Every event the component handles, every run of
  events, and every call of \<open>handleSendMessage\<close> leaves a list of which the list before is
  a prefix: messages are added at the end, none is changed or removed.
\<close>

theorem messages_append_only:
  "prefix (messages (ui w)) (messages (ui (step w e)))
   \<and> prefix (messages (ui w)) (messages (ui (run w evs)))
   \<and> prefix (messages st) (messages (fst (handleSendMessage now date fetch st)))"
  by (simp add: prefix_step prefix_run prefix_handleSendMessage)

section \<open>Empty retrieval (C7)\<close>

text \<open>
  C7: when retrieval returns nothing, the confidence is exactly 0 and the fallback state is
  \<open>REFUSE\<close>, the completion service is skipped and the sources are empty. With a positive
  lower threshold, \<open>REFUSE\<close> is the one state the policy allows.
\<close>

theorem empty_retrieval_refused:
  assumes "0 < low"
  shows "score combine [] = 0
    \<and> fallback_policy low high (score combine []) True topic s = (s = REFUSE)
    \<and> calls_completion REFUSE = False
    \<and> answer_sources REFUSE retrieved = []"
  using assms by (auto simp add: score_def fallback_policy.simps)

text \<open>
  Witness of C7: the thresholds 0.4 and 0.75 the specification gives as examples, and the
  best similarity as the combination.
\<close>

theorem empty_retrieval_refused_witness:
  "score (\<lambda>sims. hd sims) [] = 0
   \<and> fallback_policy (4 / 10) (75 / 100) (score (\<lambda>sims. hd sims) []) True General REFUSE
   \<and> \<not> fallback_policy (4 / 10) (75 / 100) (score (\<lambda>sims. hd sims) []) True General HEDGE
   \<and> \<not> fallback_policy (4 / 10) (75 / 100) (score (\<lambda>sims. hd sims) []) True General ANSWERABLE"
proof -
  have "(0::real) < 4 / 10" by simp
  note r = empty_retrieval_refused [OF this, of "\<lambda>sims. hd sims" "75 / 100" General]
  from r [of REFUSE] r [of HEDGE] r [of ANSWERABLE] show ?thesis by auto
qed

end
